theory Spec2Isabelle
  imports Main "HOL-Library.Sublist"
begin

section \<open>The service worker of QuranReciter\<close>

text \<open>
  A shallow embedding of \<^verbatim>\<open>src/service-worker.js\<close>: the \<^verbatim>\<open>activate\<close> listener and
  the \<^verbatim>\<open>fetch\<close> listener with its three caching strategies. The worker's collaborators
  (the Cache API, \<^verbatim>\<open>fetch\<close>, the console) are not part of the repository; they are modelled
  by their contract as far as the worker relies on it, and everything they decide (what the
  network answers, whether a write to a cache is accepted) is a parameter of the model.
\<close>

subsection \<open>Strings\<close>

text \<open>\<^verbatim>\<open>String.prototype.startsWith\<close>, \<^verbatim>\<open>endsWith\<close> and \<^verbatim>\<open>includes\<close>.\<close>

fun startsWith :: "string \<Rightarrow> string \<Rightarrow> bool" where
  "startsWith s [] = True"
| "startsWith [] (p # ps) = False"
| "startsWith (c # s) (p # ps) = (c = p \<and> startsWith s ps)"

definition endsWith :: "string \<Rightarrow> string \<Rightarrow> bool" where
  "endsWith s p = startsWith (rev s) (rev p)"

fun includes_str :: "string \<Rightarrow> string \<Rightarrow> bool" where
  "includes_str [] p = (p = [])"
| "includes_str (c # s) p = (startsWith (c # s) p \<or> includes_str s p)"

subsection \<open>Requests and responses\<close>

text \<open>
  A parsed URL, as \<^verbatim>\<open>new URL(...)\<close> gives it: \<^verbatim>\<open>href\<close> is the concatenation of its
  parts (\<^verbatim>\<open>search\<close> carries its \<^verbatim>\<open>?\<close> and \<^verbatim>\<open>hash\<close> its \<^verbatim>\<open>#\<close>, both empty when absent).
\<close>

record url =
  origin :: string
  pathname :: string
  search :: string
  hash :: string

definition href :: "url \<Rightarrow> string" where
  "href u = origin u @ pathname u @ search u @ hash u"

text \<open>
  \<^verbatim>\<open>new URL(path, base)\<close> for a path taken from \<^verbatim>\<open>url.pathname\<close> and a base that is an
  origin: the path on that origin, with no query and no fragment. (A path that begins with
  two slashes would be read as a host and a path; the model takes paths as they are.)
\<close>

definition new_URL :: "string \<Rightarrow> string \<Rightarrow> url" where
  "new_URL path base = \<lparr>origin = base, pathname = path, search = [], hash = []\<rparr>"

text \<open>A \<^verbatim>\<open>Headers\<close> object: names are kept in lower case, \<^verbatim>\<open>delete\<close> removes a name.\<close>

type_synonym headers = "(string \<times> string) list"

definition headers_delete :: "string \<Rightarrow> headers \<Rightarrow> headers" where
  "headers_delete name hs = filter (\<lambda>h. fst h \<noteq> name) hs"

record request =
  url :: url
  "method" :: string
  headers :: headers
  mode :: string
  credentials :: string

datatype response_type = Basic | Cors | Default_type | Error_type | Opaque | Opaqueredirect

record response =
  status :: nat
  type :: response_type
  body :: string

datatype js_error = JsError string

subsection \<open>The network and the caches\<close>

text \<open>
  \<^verbatim>\<open>fetch(request)\<close> returns a promise: it is fulfilled with a response, rejected with an
  error, or it never settles.
\<close>

datatype fetch_result = Resolves response | Rejects js_error | Pending

text \<open>
  A cache holds responses under the URL of the request they were stored for; the fragment is
  not part of the key. A key given as a string is that URL. A lookup compares URLs, query
  included, and finds nothing for a request whose method is not \<^verbatim>\<open>GET\<close>; the headers
  of the request play no part in it (matching on a \<^verbatim>\<open>Vary\<close> header is not modelled).
  The caches of the origin are kept
  in the order of their creation, which is the order of \<^verbatim>\<open>caches.keys()\<close> and the order in
  which \<^verbatim>\<open>caches.match\<close> searches them.
\<close>

type_synonym cache = "(string \<times> response) list"
type_synonym cache_storage = "(string \<times> cache) list"

definition url_key :: "url \<Rightarrow> string" where
  "url_key u = origin u @ pathname u @ search u"

definition request_key :: "request \<Rightarrow> string" where
  "request_key r = url_key (url r)"

text \<open>What the environment decides: the worker's origin, the network's answer to each
  request, and for each write to a cache whether it is rejected and with what error.\<close>

record env =
  location_origin :: string
  fetch :: "request \<Rightarrow> fetch_result"
  put_rejects :: "string \<Rightarrow> string \<Rightarrow> response \<Rightarrow> js_error option"

datatype cache_op =
    Open string
  | Match string string
  | MatchAll string
  | Put string string response
  | Keys
  | Delete string

datatype log_arg = Str string | Num nat | Err js_error
datatype log_level = Log | Error

text \<open>
  The state a listener runs in and everything it does to it: the caches, the trace of cache
  operations, the console, the requests sent to the network, and the promise rejections that
  no handler observes.
\<close>

record world =
  caches :: cache_storage
  trace :: "cache_op list"
  console :: "(log_level \<times> log_arg list) list"
  network :: "request list"
  unhandled :: "js_error list"

definition console_log :: "log_arg list \<Rightarrow> world \<Rightarrow> world" where
  "console_log args w = w\<lparr>console := console w @ [(Log, args)]\<rparr>"

definition console_error :: "log_arg list \<Rightarrow> world \<Rightarrow> world" where
  "console_error args w = w\<lparr>console := console w @ [(Error, args)]\<rparr>"

definition unhandled_rejection :: "js_error \<Rightarrow> world \<Rightarrow> world" where
  "unhandled_rejection e w = w\<lparr>unhandled := unhandled w @ [e]\<rparr>"

text \<open>The entries of the cache of a name; a name with no cache has none.\<close>

definition entries :: "cache_storage \<Rightarrow> string \<Rightarrow> cache" where
  "entries cs name = (case map_of cs name of None \<Rightarrow> [] | Some c \<Rightarrow> c)"

definition lookup :: "cache_storage \<Rightarrow> string \<Rightarrow> string \<Rightarrow> response option" where
  "lookup cs name key = map_of (entries cs name) key"

text \<open>\<^verbatim>\<open>caches.open(name)\<close>: the cache of that name, created empty when there is none.\<close>

definition ensure_cache :: "string \<Rightarrow> cache_storage \<Rightarrow> cache_storage" where
  "ensure_cache name cs = (if map_of cs name = None then cs @ [(name, [])] else cs)"

definition caches_open :: "string \<Rightarrow> world \<Rightarrow> world" where
  "caches_open name w =
     w\<lparr>caches := ensure_cache name (caches w), trace := trace w @ [Open name]\<rparr>"

text \<open>\<^verbatim>\<open>cache.match(request)\<close> on the cache of a name: the entry under the URL of the
  request when its method is \<^verbatim>\<open>GET\<close>, and \<^verbatim>\<open>undefined\<close> for every other method.\<close>

definition matching :: "cache_storage \<Rightarrow> string \<Rightarrow> request \<Rightarrow> response option" where
  "matching cs name r = (if method r = ''GET'' then lookup cs name (request_key r) else None)"

definition cache_match :: "string \<Rightarrow> request \<Rightarrow> world \<Rightarrow> response option \<times> world" where
  "cache_match name r w =
     (matching (caches w) name r, w\<lparr>trace := trace w @ [Match name (request_key r)]\<rparr>)"

text \<open>\<^verbatim>\<open>caches.match(request)\<close>: the first match over all caches, and again
  \<^verbatim>\<open>undefined\<close> for a request whose method is not \<^verbatim>\<open>GET\<close>.\<close>

fun first_match :: "cache_storage \<Rightarrow> string \<Rightarrow> response option" where
  "first_match [] key = None"
| "first_match ((name, c) # cs) key =
     (case map_of c key of Some r \<Rightarrow> Some r | None \<Rightarrow> first_match cs key)"

definition matching_any :: "cache_storage \<Rightarrow> request \<Rightarrow> response option" where
  "matching_any cs r = (if method r = ''GET'' then first_match cs (request_key r) else None)"

definition caches_match :: "request \<Rightarrow> world \<Rightarrow> response option \<times> world" where
  "caches_match r w =
     (matching_any (caches w) r, w\<lparr>trace := trace w @ [MatchAll (request_key r)]\<rparr>)"

text \<open>
  \<^verbatim>\<open>cache.put(key, response)\<close> on the cache of a name: the returned promise is rejected
  with an error and the cache is left as it was, or the entry replaces what the key held.
  Which writes are rejected is the environment's decision (a browser rejects, among others,
  a write keyed by a request whose method is not \<^verbatim>\<open>GET\<close>).
\<close>

definition store :: "string \<Rightarrow> response \<Rightarrow> cache \<Rightarrow> cache" where
  "store key r c = filter (\<lambda>e. fst e \<noteq> key) c @ [(key, r)]"

definition update_cache :: "string \<Rightarrow> (cache \<Rightarrow> cache) \<Rightarrow> cache_storage \<Rightarrow> cache_storage" where
  "update_cache name f cs = map (\<lambda>p. if fst p = name then (fst p, f (snd p)) else p) cs"

definition cache_put :: "env \<Rightarrow> string \<Rightarrow> string \<Rightarrow> response \<Rightarrow> world \<Rightarrow> js_error option \<times> world" where
  "cache_put e name key r w =
     (case put_rejects e name key r of
        Some err \<Rightarrow> (Some err, w\<lparr>trace := trace w @ [Put name key r]\<rparr>)
      | None \<Rightarrow> (None, w\<lparr>caches := update_cache name (store key r) (caches w),
                          trace := trace w @ [Put name key r]\<rparr>))"

definition do_fetch :: "env \<Rightarrow> request \<Rightarrow> world \<Rightarrow> fetch_result \<times> world" where
  "do_fetch e r w = (fetch e r, w\<lparr>network := network w @ [r]\<rparr>)"

definition caches_keys :: "world \<Rightarrow> string list \<times> world" where
  "caches_keys w = (map fst (caches w), w\<lparr>trace := trace w @ [Keys]\<rparr>)"

definition caches_delete :: "string \<Rightarrow> world \<Rightarrow> world" where
  "caches_delete name w =
     w\<lparr>caches := filter (\<lambda>p. fst p \<noteq> name) (caches w), trace := trace w @ [Delete name]\<rparr>"

subsection \<open>The listeners\<close>

definition CACHE_NAME :: string where
  "CACHE_NAME = ''quran-reciter-v12''"

text \<open>What the page that made the request gets from the \<^verbatim>\<open>fetch\<close> listener: the listener
  returns without \<^verbatim>\<open>event.respondWith\<close> and the browser handles the request as if there
  were no worker, or the promise given to \<^verbatim>\<open>respondWith\<close> is fulfilled (with a response, or
  with \<^verbatim>\<open>undefined\<close>: \<open>None\<close>), is rejected, or never settles.\<close>

datatype outcome = NotIntercepted | Respond "response option" | Reject js_error | NeverSettles

text \<open>The \<^verbatim>\<open>activate\<close> listener, up to \<^verbatim>\<open>clients.claim()\<close>.\<close>

definition cacheWhitelist :: "string list" where
  "cacheWhitelist = [CACHE_NAME, ''audio-cache'', ''api-cache'']"

definition evict :: "string \<Rightarrow> world \<Rightarrow> world" where
  "evict cacheName w =
     (if cacheName \<notin> set cacheWhitelist
      then caches_delete cacheName (console_log [Str ''[SW] Deleting old cache:'', Str cacheName] w)
      else w)"

definition activate_listener :: "world \<Rightarrow> world" where
  "activate_listener w0 =
     (let w1 = console_log [Str ''[SW] Activating Service Worker...''] w0;
          (cacheNames, w2) = caches_keys w1
      in fold evict cacheNames w2)"

text \<open>The first strategy of the \<^verbatim>\<open>fetch\<close> listener: audio and JSON files, cache first.
  On a miss the file is fetched whole by \<^verbatim>\<open>newRequest\<close>, the request without its
  \<^verbatim>\<open>Range\<close> header on the worker's own origin, and stored under \<^verbatim>\<open>cacheUrl\<close>.\<close>

definition newRequest :: "env \<Rightarrow> request \<Rightarrow> request" where
  "newRequest e request =
     (let newHeaders = headers_delete ''range'' (headers request);
          fetchUrl = new_URL (pathname (url request)) (location_origin e)
      in \<lparr>url = fetchUrl, method = method request, headers = newHeaders,
          mode = ''cors'', credentials = ''same-origin''\<rparr>)"

definition cacheUrl :: "env \<Rightarrow> request \<Rightarrow> string" where
  "cacheUrl e request = href (new_URL (pathname (url request)) (location_origin e))"

definition media_cache_first :: "env \<Rightarrow> request \<Rightarrow> world \<Rightarrow> outcome \<times> world" where
  "media_cache_first e request w0 =
     (let path = pathname (url request);
          w1 = console_log [Str ''[SW] Intercepting:'', Str path] w0;
          w2 = caches_open ''audio-cache'' w1;
          (cachedResponse, w3) = cache_match ''audio-cache'' request w2
      in case cachedResponse of
           Some c \<Rightarrow> (Respond (Some c), console_log [Str ''[SW] Found in cache:'', Str path] w3)
         | None \<Rightarrow>
             (let w4 = console_log [Str ''[SW] Not in cache. Fetching full file...'', Str path] w3;
                  (result, w5) = do_fetch e (newRequest e request) w4
              in case result of
                   Resolves networkResponse \<Rightarrow>
                     (let w6 = console_log [Str ''[SW] Network response status:'',
                                 Num (status networkResponse), Str ''for'', Str path] w5
                      in if status networkResponse = 200
                         then (let w7 = console_log [Str ''[SW] Caching file:'', Str path] w6;
                                   (failure, w8) = cache_put e ''audio-cache'' (cacheUrl e request)
                                                     networkResponse w7
                               in (Respond (Some networkResponse),
                                   case failure of
                                     None \<Rightarrow> console_log [Str ''[SW] Cache put success for:'', Str path] w8
                                   | Some err \<Rightarrow> console_error [Str ''[SW] Cache put failed:'', Err err] w8))
                         else (Respond (Some networkResponse),
                               console_log [Str ''[SW] Not caching - status was:'',
                                 Num (status networkResponse)] w6))
                 | Rejects err \<Rightarrow> (Reject err, console_error [Str ''[SW] Fetch failed:'', Err err] w5)
                 | Pending \<Rightarrow> (NeverSettles, w5)))"

text \<open>The second strategy: API requests, network first. The promise of \<^verbatim>\<open>cache.put\<close> is
  dropped, so its rejection is observed by no handler.\<close>

definition api_network_first :: "env \<Rightarrow> request \<Rightarrow> world \<Rightarrow> outcome \<times> world" where
  "api_network_first e request w0 =
     (let w1 = caches_open ''api-cache'' w0;
          (result, w2) = do_fetch e request w1
      in case result of
           Resolves networkResponse \<Rightarrow>
             (if status networkResponse = 200
              then (let (failure, w3) = cache_put e ''api-cache'' (request_key request) networkResponse w2
                    in (Respond (Some networkResponse),
                        case failure of None \<Rightarrow> w3 | Some err \<Rightarrow> unhandled_rejection err w3))
              else (Respond (Some networkResponse), w2))
         | Rejects err \<Rightarrow>
             (let (cachedResponse, w3) = cache_match ''api-cache'' request w2
              in (Respond cachedResponse, w3))
         | Pending \<Rightarrow> (NeverSettles, w2))"

text \<open>The third strategy: everything else, stale while revalidate. \<^verbatim>\<open>fetch\<close> fulfils its
  promise with a response object only, so the test \<^verbatim>\<open>!networkResponse\<close> is never true.
  When there is a cached response, \<^verbatim>\<open>fetchPromise\<close> is dropped and its rejection is observed
  by no handler; so is the rejection of \<^verbatim>\<open>cache.put\<close>.\<close>

definition stale_while_revalidate :: "env \<Rightarrow> request \<Rightarrow> world \<Rightarrow> outcome \<times> world" where
  "stale_while_revalidate e request w0 =
     (let (cachedResponse, w1) = caches_match request w0;
          (result, w2) = do_fetch e request w1
      in case result of
           Resolves networkResponse \<Rightarrow>
             (let w5 = (if status networkResponse \<noteq> 200 \<or> type networkResponse \<noteq> Basic then w2
                        else (let w3 = caches_open CACHE_NAME w2;
                                  (failure, w4) = cache_put e CACHE_NAME (request_key request) networkResponse w3
                              in case failure of None \<Rightarrow> w4 | Some err \<Rightarrow> unhandled_rejection err w4))
              in case cachedResponse of
                   Some c \<Rightarrow> (Respond (Some c), w5)
                 | None \<Rightarrow> (Respond (Some networkResponse), w5))
         | Rejects err \<Rightarrow>
             (case cachedResponse of
                Some c \<Rightarrow> (Respond (Some c), unhandled_rejection err w2)
              | None \<Rightarrow> (Reject err, w2))
         | Pending \<Rightarrow>
             (case cachedResponse of
                Some c \<Rightarrow> (Respond (Some c), w2)
              | None \<Rightarrow> (NeverSettles, w2)))"

text \<open>The \<^verbatim>\<open>fetch\<close> listener: three early returns, then the first strategy whose test
  the path passes.\<close>

definition fetch_listener :: "env \<Rightarrow> request \<Rightarrow> world \<Rightarrow> outcome \<times> world" where
  "fetch_listener e request w =
     (let u = url request in
      if includes_str (href u) ''api.alquran.cloud'' then (NotIntercepted, w)
      else if includes_str (pathname u) ''surah-data.js'' then (NotIntercepted, w)
      else if method request = ''POST'' then (NotIntercepted, w)
      else if endsWith (pathname u) ''.mp3'' \<or> endsWith (pathname u) ''.json''
              \<or> includes_str (pathname u) ''/cache/''
           then media_cache_first e request w
      else if pathname u = ''/history'' \<or> startsWith (pathname u) ''/recitation/''
           then api_network_first e request w
      else stale_while_revalidate e request w)"

text \<open>The decision the listener takes, by the same tests in the same order.\<close>

datatype decision = Bypass | Media | Api | Default

definition classify :: "request \<Rightarrow> decision" where
  "classify request =
     (let u = url request in
      if includes_str (href u) ''api.alquran.cloud'' then Bypass
      else if includes_str (pathname u) ''surah-data.js'' then Bypass
      else if method request = ''POST'' then Bypass
      else if endsWith (pathname u) ''.mp3'' \<or> endsWith (pathname u) ''.json''
              \<or> includes_str (pathname u) ''/cache/''
           then Media
      else if pathname u = ''/history'' \<or> startsWith (pathname u) ''/recitation/''
           then Api
      else Default)"

text \<open>The cache operations a listener added to the trace, and the writes among them.\<close>

definition new_ops :: "world \<Rightarrow> world \<Rightarrow> cache_op list" where
  "new_ops w w' = drop (length (trace w)) (trace w')"

fun is_put :: "cache_op \<Rightarrow> bool" where
  "is_put (Put name key r) = True"
| "is_put other = False"

definition puts :: "world \<Rightarrow> world \<Rightarrow> cache_op list" where
  "puts w w' = filter is_put (new_ops w w')"

subsection \<open>Concrete requests, responses and environments\<close>

text \<open>The inputs at which the theorems below are instantiated.\<close>

definition request_to :: "string \<Rightarrow> string \<Rightarrow> string \<Rightarrow> string \<Rightarrow> headers \<Rightarrow> request" where
  "request_to site m path query hs =
     \<lparr>url = \<lparr>origin = site, pathname = path, search = query, hash = []\<rparr>,
      method = m, headers = hs, mode = ''cors'', credentials = ''include''\<rparr>"

definition request_for :: "string \<Rightarrow> string \<Rightarrow> string \<Rightarrow> headers \<Rightarrow> request" where
  "request_for m path query hs = request_to ''https://reciter.example'' m path query hs"

definition response_with :: "nat \<Rightarrow> string \<Rightarrow> response" where
  "response_with code content = \<lparr>status = code, type = Basic, body = content\<rparr>"

definition env_with :: "fetch_result \<Rightarrow> js_error option \<Rightarrow> env" where
  "env_with result failure =
     \<lparr>location_origin = ''https://reciter.example'',
      fetch = (\<lambda>r. result),
      put_rejects = (\<lambda>name key r. failure)\<rparr>"

definition world_with :: "cache_storage \<Rightarrow> world" where
  "world_with cs = \<lparr>caches = cs, trace = [], console = [], network = [], unhandled = []\<rparr>"

section \<open>Properties\<close>

subsection \<open>Strings\<close>

text \<open>The three string tests are the prefix, suffix and contiguous-sublist relations.\<close>

lemma startsWith_prefix: "startsWith s p \<longleftrightarrow> prefix p s"
  by (induction s p rule: startsWith.induct) auto

lemma endsWith_suffix: "endsWith s p \<longleftrightarrow> suffix p s"
  by (simp add: endsWith_def startsWith_prefix suffix_to_prefix)

lemma includes_str_sublist: "includes_str s p \<longleftrightarrow> sublist p s"
  by (induction s) (auto simp: startsWith_prefix sublist_Cons_right)

subsection \<open>The caches\<close>

lemma entries_ensure_cache: "entries (ensure_cache name cs) n = entries cs n"
  by (auto simp: ensure_cache_def entries_def map_add_def split: option.splits)

lemma map_of_ensure_cache: "map_of (ensure_cache name cs) name \<noteq> None"
  by (auto simp: ensure_cache_def map_add_def)

lemma map_of_store: "map_of (store key r c) k = (if k = key then Some r else map_of c k)"
  by (induction c) (auto simp: store_def)

lemma entries_update_cache:
  "entries (update_cache name f cs) n =
     (if n = name \<and> map_of cs name \<noteq> None then f (entries cs name) else entries cs n)"
  by (induction cs) (auto simp: update_cache_def entries_def)

lemma matching_ensure_cache: "matching (ensure_cache name cs) n r = matching cs n r"
  by (simp add: matching_def lookup_def entries_ensure_cache)

lemma matching_None:
  "matching cs name r = None \<longleftrightarrow> method r \<noteq> ''GET'' \<or> lookup cs name (request_key r) = None"
  by (simp add: matching_def)

lemma matching_Some:
  "matching cs name r = Some c \<longleftrightarrow> method r = ''GET'' \<and> lookup cs name (request_key r) = Some c"
  by (simp add: matching_def)

lemma matching_any_None:
  "matching_any cs r = None \<longleftrightarrow> method r \<noteq> ''GET'' \<or> first_match cs (request_key r) = None"
  by (simp add: matching_any_def)

lemma matching_any_Some:
  "matching_any cs r = Some c \<longleftrightarrow> method r = ''GET'' \<and> first_match cs (request_key r) = Some c"
  by (simp add: matching_any_def)

lemma new_ops_append: "trace w' = trace w @ ops \<Longrightarrow> new_ops w w' = ops"
  by (simp add: new_ops_def)

lemmas world_ops = console_log_def console_error_def unhandled_rejection_def caches_open_def
  cache_match_def caches_match_def cache_put_def do_fetch_def

subsection \<open>The listener and its decision\<close>

lemma fetch_listener_Bypass:
  "classify request = Bypass \<Longrightarrow> fetch_listener e request w = (NotIntercepted, w)"
  by (auto simp add: classify_def fetch_listener_def Let_def split: if_splits)

lemma fetch_listener_Media:
  "classify request = Media \<Longrightarrow> fetch_listener e request w = media_cache_first e request w"
  by (auto simp add: classify_def fetch_listener_def Let_def split: if_splits)

lemma fetch_listener_Api:
  "classify request = Api \<Longrightarrow> fetch_listener e request w = api_network_first e request w"
  by (auto simp add: classify_def fetch_listener_def Let_def split: if_splits)

lemma fetch_listener_Default:
  "classify request = Default \<Longrightarrow> fetch_listener e request w = stale_while_revalidate e request w"
  by (auto simp add: classify_def fetch_listener_def Let_def split: if_splits)

subsection \<open>What each strategy returns, does and leaves in the caches\<close>

lemma media_cache_first_outcome:
  "fst (media_cache_first e request w) =
     (case matching (caches w) ''audio-cache'' request of
        Some c \<Rightarrow> Respond (Some c)
      | None \<Rightarrow>
          (case fetch e (newRequest e request) of
             Resolves n \<Rightarrow> Respond (Some n)
           | Rejects err \<Rightarrow> Reject err
           | Pending \<Rightarrow> NeverSettles))"
  by (simp add: media_cache_first_def world_ops Let_def matching_ensure_cache
      split: option.splits fetch_result.splits)

lemma media_cache_first_trace:
  "trace (snd (media_cache_first e request w)) =
     trace w @ [Open ''audio-cache'', Match ''audio-cache'' (request_key request)] @
       (case matching (caches w) ''audio-cache'' request of
          Some c \<Rightarrow> []
        | None \<Rightarrow>
            (case fetch e (newRequest e request) of
               Resolves n \<Rightarrow> if status n = 200 then [Put ''audio-cache'' (cacheUrl e request) n] else []
             | Rejects err \<Rightarrow> []
             | Pending \<Rightarrow> []))"
  by (simp add: media_cache_first_def world_ops Let_def matching_ensure_cache
      split: option.splits fetch_result.splits)

lemma media_cache_first_entries:
  "entries (caches (snd (media_cache_first e request w))) name =
     (case matching (caches w) ''audio-cache'' request of
        Some c \<Rightarrow> entries (caches w) name
      | None \<Rightarrow>
          (case fetch e (newRequest e request) of
             Resolves n \<Rightarrow>
               if status n = 200 \<and> put_rejects e ''audio-cache'' (cacheUrl e request) n = None
                  \<and> name = ''audio-cache''
               then store (cacheUrl e request) n (entries (caches w) name)
               else entries (caches w) name
           | Rejects err \<Rightarrow> entries (caches w) name
           | Pending \<Rightarrow> entries (caches w) name))"
  by (simp add: media_cache_first_def world_ops Let_def matching_ensure_cache entries_ensure_cache
      entries_update_cache map_of_ensure_cache split: option.splits fetch_result.splits)

lemma api_network_first_outcome:
  "fst (api_network_first e request w) =
     (case fetch e request of
        Resolves n \<Rightarrow> Respond (Some n)
      | Rejects err \<Rightarrow> Respond (matching (caches w) ''api-cache'' request)
      | Pending \<Rightarrow> NeverSettles)"
  by (simp add: api_network_first_def world_ops Let_def matching_ensure_cache
      split: option.splits fetch_result.splits)

lemma api_network_first_trace:
  "trace (snd (api_network_first e request w)) =
     trace w @ [Open ''api-cache''] @
       (case fetch e request of
          Resolves n \<Rightarrow> if status n = 200 then [Put ''api-cache'' (request_key request) n] else []
        | Rejects err \<Rightarrow> [Match ''api-cache'' (request_key request)]
        | Pending \<Rightarrow> [])"
  by (simp add: api_network_first_def world_ops Let_def
      split: option.splits fetch_result.splits)

lemma api_network_first_entries:
  "entries (caches (snd (api_network_first e request w))) name =
     (case fetch e request of
        Resolves n \<Rightarrow>
          if status n = 200 \<and> put_rejects e ''api-cache'' (request_key request) n = None
             \<and> name = ''api-cache''
          then store (request_key request) n (entries (caches w) name)
          else entries (caches w) name
      | Rejects err \<Rightarrow> entries (caches w) name
      | Pending \<Rightarrow> entries (caches w) name)"
  by (simp add: api_network_first_def world_ops Let_def entries_ensure_cache entries_update_cache
      map_of_ensure_cache split: option.splits fetch_result.splits)

lemma stale_while_revalidate_outcome:
  "fst (stale_while_revalidate e request w) =
     (case matching_any (caches w) request of
        Some c \<Rightarrow> Respond (Some c)
      | None \<Rightarrow>
          (case fetch e request of
             Resolves n \<Rightarrow> Respond (Some n)
           | Rejects err \<Rightarrow> Reject err
           | Pending \<Rightarrow> NeverSettles))"
  by (simp add: stale_while_revalidate_def world_ops Let_def
      split: option.splits fetch_result.splits)

lemma stale_while_revalidate_trace:
  "trace (snd (stale_while_revalidate e request w)) =
     trace w @ [MatchAll (request_key request)] @
       (case fetch e request of
          Resolves n \<Rightarrow>
            if status n = 200 \<and> type n = Basic
            then [Open CACHE_NAME, Put CACHE_NAME (request_key request) n] else []
        | Rejects err \<Rightarrow> []
        | Pending \<Rightarrow> [])"
  by (simp add: stale_while_revalidate_def world_ops Let_def
      split: option.splits fetch_result.splits)

lemma stale_while_revalidate_entries:
  "entries (caches (snd (stale_while_revalidate e request w))) name =
     (case fetch e request of
        Resolves n \<Rightarrow>
          if status n = 200 \<and> type n = Basic
             \<and> put_rejects e CACHE_NAME (request_key request) n = None \<and> name = CACHE_NAME
          then store (request_key request) n (entries (caches w) name)
          else entries (caches w) name
      | Rejects err \<Rightarrow> entries (caches w) name
      | Pending \<Rightarrow> entries (caches w) name)"
  by (simp add: stale_while_revalidate_def world_ops Let_def entries_ensure_cache
      entries_update_cache map_of_ensure_cache split: option.splits fetch_result.splits)

subsection \<open>Requests the listener leaves alone\<close>

text \<open>
  C7, as stated, fails: of the methods that cannot be cached the listener turns away
  \<^verbatim>\<open>POST\<close> only. A \<^verbatim>\<open>DELETE\<close> of an audio file is decided as media: the listener opens
  \<^verbatim>\<open>audio-cache\<close>, reads it (and finds nothing, the method not being \<^verbatim>\<open>GET\<close>), sends the
  \<^verbatim>\<open>DELETE\<close> to the network and stores the answer under the URL of the file, in place of
  the audio the cache held there.
\<close>

theorem delete_request_touches_audio_cache:
  "method (request_for ''DELETE'' ''/audio/001.mp3'' [] []) = ''DELETE''
   \<and> classify (request_for ''DELETE'' ''/audio/001.mp3'' [] []) = Media
   \<and> lookup (caches (world_with
        [(''audio-cache'', [(''https://reciter.example/audio/001.mp3'', response_with 200 ''audio'')])]))
        ''audio-cache'' ''https://reciter.example/audio/001.mp3'' = Some (response_with 200 ''audio'')
   \<and> new_ops
        (world_with [(''audio-cache'', [(''https://reciter.example/audio/001.mp3'', response_with 200 ''audio'')])])
        (snd (fetch_listener (env_with (Resolves (response_with 200 ''deleted'')) None)
               (request_for ''DELETE'' ''/audio/001.mp3'' [] [])
               (world_with [(''audio-cache'', [(''https://reciter.example/audio/001.mp3'', response_with 200 ''audio'')])])))
      = [Open ''audio-cache'',
         Match ''audio-cache'' ''https://reciter.example/audio/001.mp3'',
         Put ''audio-cache'' ''https://reciter.example/audio/001.mp3'' (response_with 200 ''deleted'')]
   \<and> lookup (caches (snd (fetch_listener (env_with (Resolves (response_with 200 ''deleted'')) None)
               (request_for ''DELETE'' ''/audio/001.mp3'' [] [])
               (world_with [(''audio-cache'', [(''https://reciter.example/audio/001.mp3'', response_with 200 ''audio'')])]))))
        ''audio-cache'' ''https://reciter.example/audio/001.mp3'' = Some (response_with 200 ''deleted'')"
  by (simp add: classify_def fetch_listener_def media_cache_first_def world_ops Let_def
      request_for_def request_to_def env_with_def world_with_def response_with_def
      href_def endsWith_def new_ops_def lookup_def entries_def ensure_cache_def update_cache_def
      matching_def matching_any_def
      store_def request_key_def url_key_def cacheUrl_def new_URL_def newRequest_def headers_delete_def)

text \<open>
  C7, amended to the rules as the listener tests them: a request that meets one of its three
  early returns (the URL contains \<^verbatim>\<open>api.alquran.cloud\<close>, which every URL on that host does;
  the path contains \<^verbatim>\<open>surah-data.js\<close>; the method is \<^verbatim>\<open>POST\<close>) is decided as bypass, and
  the listener returns with the world as it found it: no cache was opened, read or written,
  and the caches are what they were.
\<close>

theorem bypass_touches_no_partition:
  assumes "includes_str (href (url request)) ''api.alquran.cloud''
         \<or> includes_str (pathname (url request)) ''surah-data.js''
         \<or> method request = ''POST''"
  shows "classify request = Bypass
       \<and> fetch_listener e request w = (NotIntercepted, w)
       \<and> new_ops w (snd (fetch_listener e request w)) = []
       \<and> caches (snd (fetch_listener e request w)) = caches w"
proof -
  from assms have b: "classify request = Bypass"
    by (auto simp: classify_def Let_def)
  then have "fetch_listener e request w = (NotIntercepted, w)"
    by (rule fetch_listener_Bypass)
  with b show ?thesis
    by (simp add: new_ops_def)
qed

theorem bypass_touches_no_partition_witness:
  "classify (request_to ''https://api.alquran.cloud'' ''GET'' ''/v1/surah/1'' [] []) = Bypass
   \<and> fetch_listener (env_with Pending None)
        (request_to ''https://api.alquran.cloud'' ''GET'' ''/v1/surah/1'' [] [])
        (world_with [(''audio-cache'', [])])
      = (NotIntercepted, world_with [(''audio-cache'', [])])"
proof -
  have "includes_str (href (url (request_to ''https://api.alquran.cloud'' ''GET'' ''/v1/surah/1'' [] [])))
          ''api.alquran.cloud''"
    by (simp add: request_to_def href_def)
  then show ?thesis
    using bypass_touches_no_partition
      [of "request_to ''https://api.alquran.cloud'' ''GET'' ''/v1/surah/1'' [] []"
          "env_with Pending None" "world_with [(''audio-cache'', [])]"]
    by simp
qed

text \<open>
  C8, as stated, fails: the listener tests the method against \<^verbatim>\<open>POST\<close> only. A
  \<^verbatim>\<open>PUT\<close> to a JSON file under \<^verbatim>\<open>/cache/\<close> is decided as media, not as bypass, and
  the response to it is stored in \<^verbatim>\<open>audio-cache\<close> under the URL of the file.
\<close>

theorem put_request_is_not_bypassed:
  "method (request_for ''PUT'' ''/cache/notes.json'' [] []) = ''PUT''
   \<and> classify (request_for ''PUT'' ''/cache/notes.json'' [] []) = Media
   \<and> new_ops (world_with [])
        (snd (fetch_listener (env_with (Resolves (response_with 200 ''saved'')) None)
               (request_for ''PUT'' ''/cache/notes.json'' [] []) (world_with [])))
      = [Open ''audio-cache'',
         Match ''audio-cache'' ''https://reciter.example/cache/notes.json'',
         Put ''audio-cache'' ''https://reciter.example/cache/notes.json'' (response_with 200 ''saved'')]
   \<and> lookup (caches (snd (fetch_listener (env_with (Resolves (response_with 200 ''saved'')) None)
               (request_for ''PUT'' ''/cache/notes.json'' [] []) (world_with []))))
        ''audio-cache'' ''https://reciter.example/cache/notes.json'' = Some (response_with 200 ''saved'')"
  by (simp add: classify_def fetch_listener_def media_cache_first_def world_ops Let_def
      request_for_def request_to_def env_with_def world_with_def response_with_def
      href_def endsWith_def new_ops_def lookup_def entries_def ensure_cache_def update_cache_def
      matching_def matching_any_def
      store_def request_key_def url_key_def cacheUrl_def new_URL_def newRequest_def headers_delete_def)

text \<open>
  C8, amended: a request whose method is \<^verbatim>\<open>POST\<close> is decided as bypass; the listener
  returns without answering it and with the world as it found it, so the request goes to the
  network and neither stores nor keys a cache entry.
\<close>

theorem post_is_bypassed:
  assumes "method request = ''POST''"
  shows "classify request = Bypass \<and> fetch_listener e request w = (NotIntercepted, w)"
proof -
  from assms have b: "classify request = Bypass"
    by (simp add: classify_def Let_def)
  with fetch_listener_Bypass [OF b] show ?thesis
    by simp
qed

theorem post_is_bypassed_witness:
  "method (request_for ''POST'' ''/history'' [] []) = ''POST''
   \<and> classify (request_for ''POST'' ''/history'' [] []) = Bypass
   \<and> fetch_listener (env_with (Resolves (response_with 200 ''saved'')) None)
        (request_for ''POST'' ''/history'' [] []) (world_with [])
      = (NotIntercepted, world_with [])"
proof -
  have m: "method (request_for ''POST'' ''/history'' [] []) = ''POST''"
    by (simp add: request_for_def request_to_def)
  from m post_is_bypassed [OF m] show ?thesis
    by simp
qed

subsection \<open>Media: cache first\<close>

text \<open>
  C1. For a request decided as media, every write the listener makes goes to
  \<^verbatim>\<open>audio-cache\<close> and stores the response of the network to \<^verbatim>\<open>newRequest\<close>, whose status
  is 200. When \<^verbatim>\<open>cache.match\<close> finds nothing for the request (its method is not
  \<^verbatim>\<open>GET\<close>, or the cache holds nothing under its URL) and the network answers with any
  other status, that response is what the caller gets, the listener writes nothing, and the
  entries of every cache are what they were.
\<close>

theorem media_stores_only_status_200:
  assumes "classify request = Media"
    and "fetch_listener e request w = (out, w')"
  shows "(\<forall>name key r. Put name key r \<in> set (new_ops w w') \<longrightarrow>
            name = ''audio-cache'' \<and> status r = 200 \<and> fetch e (newRequest e request) = Resolves r)
       \<and> (\<forall>n. (method request \<noteq> ''GET''
                  \<or> lookup (caches w) ''audio-cache'' (request_key request) = None)
              \<and> fetch e (newRequest e request) = Resolves n \<and> status n \<noteq> 200 \<longrightarrow>
              out = Respond (Some n) \<and> puts w w' = []
              \<and> (\<forall>name. entries (caches w') name = entries (caches w) name))"
proof -
  from assms have m: "media_cache_first e request w = (out, w')"
    by (simp add: fetch_listener_Media)
  then have out: "out = fst (media_cache_first e request w)"
    and w': "w' = snd (media_cache_first e request w)"
    by simp_all
  have ops: "new_ops w w' =
      [Open ''audio-cache'', Match ''audio-cache'' (request_key request)] @
       (case matching (caches w) ''audio-cache'' request of
          Some c \<Rightarrow> []
        | None \<Rightarrow>
            (case fetch e (newRequest e request) of
               Resolves n \<Rightarrow> if status n = 200 then [Put ''audio-cache'' (cacheUrl e request) n] else []
             | Rejects err \<Rightarrow> []
             | Pending \<Rightarrow> []))"
    unfolding w' by (rule new_ops_append) (simp add: media_cache_first_trace)
  have stored: "\<forall>name key r. Put name key r \<in> set (new_ops w w') \<longrightarrow>
      name = ''audio-cache'' \<and> status r = 200 \<and> fetch e (newRequest e request) = Resolves r"
    unfolding ops by (auto split: option.splits fetch_result.splits if_splits)
  have other: "\<forall>n. (method request \<noteq> ''GET''
                  \<or> lookup (caches w) ''audio-cache'' (request_key request) = None)
              \<and> fetch e (newRequest e request) = Resolves n \<and> status n \<noteq> 200 \<longrightarrow>
              out = Respond (Some n) \<and> puts w w' = []
              \<and> (\<forall>name. entries (caches w') name = entries (caches w) name)"
    unfolding puts_def ops unfolding out w' matching_None [symmetric]
    by (simp add: media_cache_first_outcome media_cache_first_entries)
  from stored other show ?thesis
    by blast
qed

theorem media_stores_only_status_200_witness:
  "classify (request_for ''GET'' ''/audio/001.mp3'' [] [(''range'', ''bytes=0-'')]) = Media
   \<and> fst (fetch_listener (env_with (Resolves (response_with 206 ''part'')) None)
        (request_for ''GET'' ''/audio/001.mp3'' [] [(''range'', ''bytes=0-'')]) (world_with []))
      = Respond (Some (response_with 206 ''part''))
   \<and> puts (world_with [])
        (snd (fetch_listener (env_with (Resolves (response_with 206 ''part'')) None)
           (request_for ''GET'' ''/audio/001.mp3'' [] [(''range'', ''bytes=0-'')]) (world_with []))) = []
   \<and> entries (caches (snd (fetch_listener (env_with (Resolves (response_with 206 ''part'')) None)
           (request_for ''GET'' ''/audio/001.mp3'' [] [(''range'', ''bytes=0-'')]) (world_with []))))
        ''audio-cache'' = []"
proof -
  let ?r = "request_for ''GET'' ''/audio/001.mp3'' [] [(''range'', ''bytes=0-'')]"
  let ?e = "env_with (Resolves (response_with 206 ''part'')) None"
  have c: "classify ?r = Media"
    by (simp add: classify_def request_for_def request_to_def href_def endsWith_def)
  have miss: "lookup (caches (world_with [])) ''audio-cache'' (request_key ?r) = None"
    by (simp add: world_with_def lookup_def entries_def)
  have net: "fetch ?e (newRequest ?e ?r) = Resolves (response_with 206 ''part'')"
    by (simp add: env_with_def)
  have st: "status (response_with 206 ''part'') \<noteq> 200"
    by (simp add: response_with_def)
  have e0: "entries (caches (world_with [])) ''audio-cache'' = []"
    by (simp add: world_with_def entries_def)
  from media_stores_only_status_200
      [of ?r ?e "world_with []" "fst (fetch_listener ?e ?r (world_with []))"
          "snd (fetch_listener ?e ?r (world_with []))"]
    c miss net st e0
  show ?thesis
    by simp
qed

subsection \<open>API: network first\<close>

text \<open>
  C3. For a request decided as api, when \<^verbatim>\<open>fetch\<close> is fulfilled with a response, that
  response is what the caller gets, whatever the caches hold for the request. When its status
  is 200 the listener opens \<^verbatim>\<open>api-cache\<close> and writes the response there under the key of
  the request itself, and unless the cache rejects the write the entry is there afterwards.
\<close>

theorem api_returns_network_response:
  assumes "classify request = Api"
    and "fetch e request = Resolves n"
    and "fetch_listener e request w = (out, w')"
  shows "out = Respond (Some n)
       \<and> (status n = 200 \<longrightarrow>
            new_ops w w' = [Open ''api-cache'', Put ''api-cache'' (request_key request) n]
            \<and> (put_rejects e ''api-cache'' (request_key request) n = None \<longrightarrow>
                 lookup (caches w') ''api-cache'' (request_key request) = Some n))"
proof -
  from assms have a: "api_network_first e request w = (out, w')"
    by (simp add: fetch_listener_Api)
  then have out: "out = fst (api_network_first e request w)"
    and w': "w' = snd (api_network_first e request w)"
    by simp_all
  have "trace w' = trace w @
      (if status n = 200 then [Open ''api-cache'', Put ''api-cache'' (request_key request) n]
       else [Open ''api-cache''])"
    unfolding w' using assms(2) by (simp add: api_network_first_trace)
  then have ops: "status n = 200 \<longrightarrow>
      new_ops w w' = [Open ''api-cache'', Put ''api-cache'' (request_key request) n]"
    by (simp add: new_ops_def)
  have kept: "status n = 200 \<longrightarrow> put_rejects e ''api-cache'' (request_key request) n = None \<longrightarrow>
      lookup (caches w') ''api-cache'' (request_key request) = Some n"
    unfolding w' lookup_def using assms(2)
    by (simp add: api_network_first_entries map_of_store)
  have "out = Respond (Some n)"
    unfolding out using assms(2) by (simp add: api_network_first_outcome)
  with ops kept show ?thesis
    by blast
qed

theorem api_returns_network_response_witness:
  "classify (request_for ''GET'' ''/history'' [] []) = Api
   \<and> lookup (caches (world_with [(''api-cache'', [(''https://reciter.example/history'', response_with 200 ''old'')])]))
        ''api-cache'' (request_key (request_for ''GET'' ''/history'' [] [])) = Some (response_with 200 ''old'')
   \<and> fst (fetch_listener (env_with (Resolves (response_with 200 ''new'')) None)
        (request_for ''GET'' ''/history'' [] [])
        (world_with [(''api-cache'', [(''https://reciter.example/history'', response_with 200 ''old'')])]))
      = Respond (Some (response_with 200 ''new''))
   \<and> lookup (caches (snd (fetch_listener (env_with (Resolves (response_with 200 ''new'')) None)
        (request_for ''GET'' ''/history'' [] [])
        (world_with [(''api-cache'', [(''https://reciter.example/history'', response_with 200 ''old'')])]))))
        ''api-cache'' (request_key (request_for ''GET'' ''/history'' [] [])) = Some (response_with 200 ''new'')"
proof -
  let ?r = "request_for ''GET'' ''/history'' [] []"
  let ?e = "env_with (Resolves (response_with 200 ''new'')) None"
  let ?w = "world_with [(''api-cache'', [(''https://reciter.example/history'', response_with 200 ''old'')])]"
  have c: "classify ?r = Api"
    by (simp add: classify_def request_for_def request_to_def href_def endsWith_def)
  have old: "lookup (caches ?w) ''api-cache'' (request_key ?r) = Some (response_with 200 ''old'')"
    by (simp add: world_with_def lookup_def entries_def request_key_def url_key_def
        request_for_def request_to_def)
  have net: "fetch ?e ?r = Resolves (response_with 200 ''new'')"
    by (simp add: env_with_def)
  have ok: "status (response_with 200 ''new'') = 200"
    and acc: "put_rejects ?e ''api-cache'' (request_key ?r) (response_with 200 ''new'') = None"
    by (simp_all add: response_with_def env_with_def)
  from api_returns_network_response
      [of ?r ?e "response_with 200 ''new''" ?w "fst (fetch_listener ?e ?r ?w)"
          "snd (fetch_listener ?e ?r ?w)"]
    c old net ok acc
  show ?thesis
    by simp
qed

text \<open>
  C4. For a request decided as api, when \<^verbatim>\<open>fetch\<close> is rejected, the caller gets what
  \<^verbatim>\<open>cache.match\<close> finds in \<^verbatim>\<open>api-cache\<close> for the request: the stored response when
  the request is a \<^verbatim>\<open>GET\<close> and the cache holds an entry under its URL, and otherwise
  (another method, for which no entry is ever matched, or no entry) \<^verbatim>\<open>undefined\<close>, a
  fulfilled promise with no response in it; the error of the network is never passed on.
\<close>

theorem api_falls_back_to_cache:
  assumes "classify request = Api"
    and "fetch e request = Rejects err"
    and "fetch_listener e request w = (out, w')"
  shows "(\<forall>r. method request = ''GET''
              \<and> lookup (caches w) ''api-cache'' (request_key request) = Some r \<longrightarrow>
              out = Respond (Some r))
       \<and> (method request \<noteq> ''GET''
            \<or> lookup (caches w) ''api-cache'' (request_key request) = None \<longrightarrow>
            out = Respond None)
       \<and> out \<noteq> Reject err"
proof -
  from assms have "api_network_first e request w = (out, w')"
    by (simp add: fetch_listener_Api)
  then have "out = fst (api_network_first e request w)"
    by simp
  with assms(2) have "out = Respond (matching (caches w) ''api-cache'' request)"
    by (simp add: api_network_first_outcome)
  then show ?thesis
    by (auto simp: matching_def)
qed

theorem api_falls_back_to_cache_witness:
  "classify (request_for ''GET'' ''/history'' [] []) = Api
   \<and> fst (fetch_listener (env_with (Rejects (JsError ''TypeError: Failed to fetch'')) None)
        (request_for ''GET'' ''/history'' [] [])
        (world_with [(''api-cache'', [(''https://reciter.example/history'', response_with 200 ''old'')])]))
      = Respond (Some (response_with 200 ''old''))
   \<and> classify (request_for ''HEAD'' ''/history'' [] []) = Api
   \<and> fst (fetch_listener (env_with (Rejects (JsError ''TypeError: Failed to fetch'')) None)
        (request_for ''HEAD'' ''/history'' [] [])
        (world_with [(''api-cache'', [(''https://reciter.example/history'', response_with 200 ''old'')])]))
      = Respond None"
proof -
  let ?r = "request_for ''GET'' ''/history'' [] []"
  let ?h = "request_for ''HEAD'' ''/history'' [] []"
  let ?e = "env_with (Rejects (JsError ''TypeError: Failed to fetch'')) None"
  let ?w = "world_with [(''api-cache'', [(''https://reciter.example/history'', response_with 200 ''old'')])]"
  have c: "classify ?r = Api" and ch: "classify ?h = Api"
    by (simp_all add: classify_def request_for_def request_to_def href_def endsWith_def)
  have get: "method ?r = ''GET''" and head: "method ?h \<noteq> ''GET''"
    by (simp_all add: request_for_def request_to_def)
  have old: "lookup (caches ?w) ''api-cache'' (request_key ?r) = Some (response_with 200 ''old'')"
    by (simp add: world_with_def lookup_def entries_def request_key_def url_key_def
        request_for_def request_to_def)
  have net: "fetch ?e ?r = Rejects (JsError ''TypeError: Failed to fetch'')"
    and neth: "fetch ?e ?h = Rejects (JsError ''TypeError: Failed to fetch'')"
    by (simp_all add: env_with_def)
  have hit: "fst (fetch_listener ?e ?r ?w) = Respond (Some (response_with 200 ''old''))"
    using api_falls_back_to_cache
      [of ?r ?e "JsError ''TypeError: Failed to fetch''" ?w "fst (fetch_listener ?e ?r ?w)"
          "snd (fetch_listener ?e ?r ?w)"]
      c get old net
    by simp
  have miss: "fst (fetch_listener ?e ?h ?w) = Respond None"
    using api_falls_back_to_cache
      [of ?h ?e "JsError ''TypeError: Failed to fetch''" ?w "fst (fetch_listener ?e ?h ?w)"
          "snd (fetch_listener ?e ?h ?w)"]
      ch head neth
    by simp
  from c ch hit miss show ?thesis
    by simp
qed

text \<open>
  C10. For a request decided as api, when \<^verbatim>\<open>fetch\<close> is fulfilled with a response whose
  status is not 200, that response is what the caller gets; the listener only opens
  \<^verbatim>\<open>api-cache\<close>, writes and deletes nothing, and every cache keeps its entries, the one
  stored for this request among them.
\<close>

theorem api_non_200_leaves_cache:
  assumes "classify request = Api"
    and "fetch e request = Resolves n"
    and "status n \<noteq> 200"
    and "fetch_listener e request w = (out, w')"
  shows "out = Respond (Some n)
       \<and> new_ops w w' = [Open ''api-cache'']
       \<and> (\<forall>name. entries (caches w') name = entries (caches w) name)
       \<and> lookup (caches w') ''api-cache'' (request_key request)
           = lookup (caches w) ''api-cache'' (request_key request)"
proof -
  from assms have a: "api_network_first e request w = (out, w')"
    by (simp add: fetch_listener_Api)
  then have out: "out = fst (api_network_first e request w)"
    and w': "w' = snd (api_network_first e request w)"
    by simp_all
  have "trace w' = trace w @ [Open ''api-cache'']"
    unfolding w' using assms(2,3) by (simp add: api_network_first_trace)
  then have ops: "new_ops w w' = [Open ''api-cache'']"
    by (rule new_ops_append)
  have same: "\<forall>name. entries (caches w') name = entries (caches w) name"
    unfolding w' using assms(2,3) by (simp add: api_network_first_entries)
  have "out = Respond (Some n)"
    unfolding out using assms(2) by (simp add: api_network_first_outcome)
  with ops same show ?thesis
    by (simp add: lookup_def)
qed

theorem api_non_200_leaves_cache_witness:
  "classify (request_for ''GET'' ''/recitation/12'' [] []) = Api
   \<and> fst (fetch_listener (env_with (Resolves (response_with 500 ''oops'')) None)
        (request_for ''GET'' ''/recitation/12'' [] [])
        (world_with [(''api-cache'', [(''https://reciter.example/recitation/12'', response_with 200 ''good'')])]))
      = Respond (Some (response_with 500 ''oops''))
   \<and> lookup (caches (snd (fetch_listener (env_with (Resolves (response_with 500 ''oops'')) None)
        (request_for ''GET'' ''/recitation/12'' [] [])
        (world_with [(''api-cache'', [(''https://reciter.example/recitation/12'', response_with 200 ''good'')])]))))
        ''api-cache'' ''https://reciter.example/recitation/12'' = Some (response_with 200 ''good'')"
proof -
  let ?r = "request_for ''GET'' ''/recitation/12'' [] []"
  let ?e = "env_with (Resolves (response_with 500 ''oops'')) None"
  let ?w = "world_with [(''api-cache'', [(''https://reciter.example/recitation/12'', response_with 200 ''good'')])]"
  have c: "classify ?r = Api"
    by (simp add: classify_def request_for_def request_to_def href_def endsWith_def)
  have key: "request_key ?r = ''https://reciter.example/recitation/12''"
    by (simp add: request_key_def url_key_def request_for_def request_to_def)
  have old: "lookup (caches ?w) ''api-cache'' ''https://reciter.example/recitation/12''
      = Some (response_with 200 ''good'')"
    by (simp add: world_with_def lookup_def entries_def)
  have net: "fetch ?e ?r = Resolves (response_with 500 ''oops'')"
    by (simp add: env_with_def)
  have st: "status (response_with 500 ''oops'') \<noteq> 200"
    by (simp add: response_with_def)
  from api_non_200_leaves_cache
      [of ?r ?e "response_with 500 ''oops''" ?w "fst (fetch_listener ?e ?r ?w)"
          "snd (fetch_listener ?e ?r ?w)"]
    c key old net st
  show ?thesis
    by simp
qed

subsection \<open>Activation\<close>

lemma caches_fold_evict:
  "caches (fold evict names w) =
     filter (\<lambda>p. fst p \<notin> set names \<or> fst p \<in> set cacheWhitelist) (caches w)"
proof (induction names arbitrary: w)
  case Nil
  then show ?case by simp
next
  case (Cons name names)
  have "caches (evict name w) =
      filter (\<lambda>p. fst p \<noteq> name \<or> fst p \<in> set cacheWhitelist) (caches w)"
    by (auto simp: evict_def caches_delete_def console_log_def intro: filter_cong filter_id_conv [THEN iffD2, symmetric])
  with Cons.IH [of "evict name w"] show ?case
    by (auto intro: filter_cong)
qed

lemma caches_activate_listener:
  "caches (activate_listener w) = filter (\<lambda>p. fst p \<in> set cacheWhitelist) (caches w)"
proof -
  have "caches (activate_listener w) =
      filter (\<lambda>p. fst p \<notin> set (map fst (caches w)) \<or> fst p \<in> set cacheWhitelist) (caches w)"
    by (simp add: activate_listener_def caches_keys_def console_log_def Let_def caches_fold_evict)
  also have "\<dots> = filter (\<lambda>p. fst p \<in> set cacheWhitelist) (caches w)"
    by (rule filter_cong) auto
  finally show ?thesis .
qed

text \<open>
  C6. The \<^verbatim>\<open>activate\<close> listener leaves exactly the caches whose name is in the whitelist
  (\<^verbatim>\<open>CACHE_NAME\<close>, \<^verbatim>\<open>audio-cache\<close>, \<^verbatim>\<open>api-cache\<close>), each with the entries it had and in
  the order they had: a name that existed is there afterwards if and only if it is in the
  whitelist.
\<close>

theorem activate_evicts_unlisted:
  "caches (activate_listener w)
     = filter (\<lambda>p. fst p \<in> {CACHE_NAME, ''audio-cache'', ''api-cache''}) (caches w)
   \<and> (\<forall>name \<in> set (map fst (caches w)).
         name \<in> set (map fst (caches (activate_listener w)))
           \<longleftrightarrow> name \<in> {CACHE_NAME, ''audio-cache'', ''api-cache''})"
proof -
  have "set cacheWhitelist = {CACHE_NAME, ''audio-cache'', ''api-cache''}"
    by (simp add: cacheWhitelist_def)
  then have eq: "caches (activate_listener w)
     = filter (\<lambda>p. fst p \<in> {CACHE_NAME, ''audio-cache'', ''api-cache''}) (caches w)"
    using caches_activate_listener [of w] by simp
  show ?thesis
    unfolding eq by (auto simp: eq)
qed

theorem activate_evicts_unlisted_witness:
  "map fst (caches (activate_listener (world_with
      [(''quran-reciter-v11'', [(''https://reciter.example/'', response_with 200 ''shell'')]),
       (''audio-cache'', [(''https://reciter.example/a.mp3'', response_with 200 ''a'')]),
       (''quran-reciter-v12'', [])])))
   = [''audio-cache'', ''quran-reciter-v12'']"
  using activate_evicts_unlisted [of "world_with
      [(''quran-reciter-v11'', [(''https://reciter.example/'', response_with 200 ''shell'')]),
       (''audio-cache'', [(''https://reciter.example/a.mp3'', response_with 200 ''a'')]),
       (''quran-reciter-v12'', [])]"]
  by (simp add: world_with_def CACHE_NAME_def)

subsection \<open>Default: stale while revalidate\<close>

text \<open>
  C5. For a request decided as default: when \<^verbatim>\<open>caches.match\<close> finds a response (the
  request is a \<^verbatim>\<open>GET\<close> and some cache holds an entry under its URL), that response is
  what the caller gets, whatever becomes of the fetch, also when it never settles. The listener writes to a cache exactly when \<^verbatim>\<open>fetch\<close> is fulfilled with a
  response of status 200 and type \<^verbatim>\<open>basic\<close>: the write goes to \<^verbatim>\<open>CACHE_NAME\<close> under the
  key of the request, and unless the cache rejects it the entry is there afterwards; in every
  other case nothing is written and every cache keeps its entries. When \<^verbatim>\<open>caches.match\<close>
  finds nothing (another method, or no entry), the caller gets the result of the fetch.
\<close>

theorem default_stale_while_revalidate:
  assumes "classify request = Default"
    and "fetch_listener e request w = (out, w')"
  shows "(\<forall>c. method request = ''GET''
              \<and> first_match (caches w) (request_key request) = Some c \<longrightarrow>
              out = Respond (Some c))
       \<and> (\<forall>n. fetch e request = Resolves n \<and> status n = 200 \<and> type n = Basic \<longrightarrow>
              puts w w' = [Put CACHE_NAME (request_key request) n]
              \<and> (put_rejects e CACHE_NAME (request_key request) n = None \<longrightarrow>
                   lookup (caches w') CACHE_NAME (request_key request) = Some n))
       \<and> ((\<nexists>n. fetch e request = Resolves n \<and> status n = 200 \<and> type n = Basic) \<longrightarrow>
              puts w w' = [] \<and> (\<forall>name. entries (caches w') name = entries (caches w) name))
       \<and> (method request \<noteq> ''GET''
            \<or> first_match (caches w) (request_key request) = None \<longrightarrow>
              out = (case fetch e request of
                       Resolves n \<Rightarrow> Respond (Some n)
                     | Rejects err \<Rightarrow> Reject err
                     | Pending \<Rightarrow> NeverSettles))"
proof -
  from assms have s: "stale_while_revalidate e request w = (out, w')"
    by (simp add: fetch_listener_Default)
  then have out: "out = fst (stale_while_revalidate e request w)"
    and w': "w' = snd (stale_while_revalidate e request w)"
    by simp_all
  have ops: "new_ops w w' =
      [MatchAll (request_key request)] @
       (case fetch e request of
          Resolves n \<Rightarrow>
            if status n = 200 \<and> type n = Basic
            then [Open CACHE_NAME, Put CACHE_NAME (request_key request) n] else []
        | Rejects err \<Rightarrow> []
        | Pending \<Rightarrow> [])"
    unfolding w' by (rule new_ops_append) (simp add: stale_while_revalidate_trace)
  have hit: "\<forall>c. method request = ''GET''
      \<and> first_match (caches w) (request_key request) = Some c \<longrightarrow> out = Respond (Some c)"
    unfolding out by (simp add: stale_while_revalidate_outcome matching_any_def)
  have miss: "method request \<noteq> ''GET''
      \<or> first_match (caches w) (request_key request) = None \<longrightarrow>
      out = (case fetch e request of
               Resolves n \<Rightarrow> Respond (Some n)
             | Rejects err \<Rightarrow> Reject err
             | Pending \<Rightarrow> NeverSettles)"
    unfolding out by (auto simp add: stale_while_revalidate_outcome matching_any_def)
  have stored: "\<forall>n. fetch e request = Resolves n \<and> status n = 200 \<and> type n = Basic \<longrightarrow>
      puts w w' = [Put CACHE_NAME (request_key request) n]
      \<and> (put_rejects e CACHE_NAME (request_key request) n = None \<longrightarrow>
           lookup (caches w') CACHE_NAME (request_key request) = Some n)"
    unfolding puts_def ops unfolding w' lookup_def
    by (simp add: stale_while_revalidate_entries map_of_store)
  have skipped: "(\<nexists>n. fetch e request = Resolves n \<and> status n = 200 \<and> type n = Basic) \<longrightarrow>
      puts w w' = [] \<and> (\<forall>name. entries (caches w') name = entries (caches w) name)"
    unfolding puts_def ops unfolding w'
    by (cases "fetch e request") (auto simp add: stale_while_revalidate_entries)
  from hit stored skipped miss show ?thesis
    by blast
qed

theorem default_stale_while_revalidate_witness:
  "classify (request_for ''GET'' ''/app.css'' [] []) = Default
   \<and> fst (fetch_listener (env_with Pending None) (request_for ''GET'' ''/app.css'' [] [])
        (world_with [(''quran-reciter-v12'', [(''https://reciter.example/app.css'', response_with 200 ''old'')])]))
      = Respond (Some (response_with 200 ''old''))
   \<and> puts (world_with [(''quran-reciter-v12'', [(''https://reciter.example/app.css'', response_with 200 ''old'')])])
        (snd (fetch_listener (env_with Pending None) (request_for ''GET'' ''/app.css'' [] [])
          (world_with [(''quran-reciter-v12'', [(''https://reciter.example/app.css'', response_with 200 ''old'')])])))
      = []
   \<and> classify (request_for ''HEAD'' ''/app.css'' [] []) = Default
   \<and> fst (fetch_listener (env_with (Resolves (response_with 200 ''new'')) None)
        (request_for ''HEAD'' ''/app.css'' [] [])
        (world_with [(''quran-reciter-v12'', [(''https://reciter.example/app.css'', response_with 200 ''old'')])]))
      = Respond (Some (response_with 200 ''new''))"
proof -
  let ?r = "request_for ''GET'' ''/app.css'' [] []"
  let ?h = "request_for ''HEAD'' ''/app.css'' [] []"
  let ?e = "env_with Pending None"
  let ?n = "env_with (Resolves (response_with 200 ''new'')) None"
  let ?w = "world_with [(''quran-reciter-v12'', [(''https://reciter.example/app.css'', response_with 200 ''old'')])]"
  have c: "classify ?r = Default" and ch: "classify ?h = Default"
    by (simp_all add: classify_def request_for_def request_to_def href_def endsWith_def)
  have get: "method ?r = ''GET''" and head: "method ?h \<noteq> ''GET''"
    by (simp_all add: request_for_def request_to_def)
  have old: "first_match (caches ?w) (request_key ?r) = Some (response_with 200 ''old'')"
    by (simp add: world_with_def request_key_def url_key_def request_for_def request_to_def)
  have net: "fetch ?e ?r = Pending"
    and neth: "fetch ?n ?h = Resolves (response_with 200 ''new'')"
    by (simp_all add: env_with_def)
  have hit: "fst (fetch_listener ?e ?r ?w) = Respond (Some (response_with 200 ''old''))
      \<and> puts ?w (snd (fetch_listener ?e ?r ?w)) = []"
    using default_stale_while_revalidate
      [of ?r ?e ?w "fst (fetch_listener ?e ?r ?w)" "snd (fetch_listener ?e ?r ?w)"]
      c get old net
    by simp
  have miss: "fst (fetch_listener ?n ?h ?w) = Respond (Some (response_with 200 ''new''))"
    using default_stale_while_revalidate
      [of ?h ?n ?w "fst (fetch_listener ?n ?h ?w)" "snd (fetch_listener ?n ?h ?w)"]
      ch head neth
    by simp
  from c ch hit miss show ?thesis
    by simp
qed

subsection \<open>The key of a media entry\<close>

text \<open>
  The media strategy looks an entry up under the URL of the request and stores it under
  \<^verbatim>\<open>cacheUrl\<close>, the path on the worker's origin. The two are the same key for a request to
  the worker's origin with no query, whatever its headers; a \<^verbatim>\<open>GET\<close> request whose key
  is the key of the stored entry finds it.
\<close>

lemma request_key_is_cacheUrl:
  "origin (url request) = location_origin e \<Longrightarrow> search (url request) = [] \<Longrightarrow>
     request_key request = cacheUrl e request"
  by (simp add: request_key_def url_key_def cacheUrl_def href_def new_URL_def)

lemma media_hit_after_store:
  assumes "matching (caches w) ''audio-cache'' request = None"
    and "fetch e (newRequest e request) = Resolves n"
    and "status n = 200"
    and "put_rejects e ''audio-cache'' (cacheUrl e request) n = None"
    and "request_key later = cacheUrl e request"
    and "method later = ''GET''"
  shows "fst (media_cache_first e later (snd (media_cache_first e request w))) = Respond (Some n)"
  using assms
  by (simp add: media_cache_first_outcome [of e later] matching_def lookup_def
      media_cache_first_entries map_of_store)

text \<open>
  C2 at a request with a query, \<^verbatim>\<open>GET /cache/001.mp3?v=2\<close>, on empty caches and a
  network that answers 200: the response is stored under the URL without the query, the
  lookup is under the URL with it, so the same request handled again misses, is fetched a
  second time and stored again.
\<close>

theorem media_request_with_query_misses_again:
  "classify (request_for ''GET'' ''/cache/001.mp3'' ''?v=2'' []) = Media
   \<and> entries (caches (snd (fetch_listener (env_with (Resolves (response_with 200 ''full'')) None)
        (request_for ''GET'' ''/cache/001.mp3'' ''?v=2'' []) (world_with [])))) ''audio-cache''
      = [(''https://reciter.example/cache/001.mp3'', response_with 200 ''full'')]
   \<and> request_key (request_for ''GET'' ''/cache/001.mp3'' ''?v=2'' [])
      = ''https://reciter.example/cache/001.mp3?v=2''
   \<and> new_ops
        (snd (fetch_listener (env_with (Resolves (response_with 200 ''full'')) None)
          (request_for ''GET'' ''/cache/001.mp3'' ''?v=2'' []) (world_with [])))
        (snd (fetch_listener (env_with (Resolves (response_with 200 ''full'')) None)
          (request_for ''GET'' ''/cache/001.mp3'' ''?v=2'' [])
          (snd (fetch_listener (env_with (Resolves (response_with 200 ''full'')) None)
            (request_for ''GET'' ''/cache/001.mp3'' ''?v=2'' []) (world_with [])))))
      = [Open ''audio-cache'',
         Match ''audio-cache'' ''https://reciter.example/cache/001.mp3?v=2'',
         Put ''audio-cache'' ''https://reciter.example/cache/001.mp3'' (response_with 200 ''full'')]
   \<and> length (network
        (snd (fetch_listener (env_with (Resolves (response_with 200 ''full'')) None)
          (request_for ''GET'' ''/cache/001.mp3'' ''?v=2'' [])
          (snd (fetch_listener (env_with (Resolves (response_with 200 ''full'')) None)
            (request_for ''GET'' ''/cache/001.mp3'' ''?v=2'' []) (world_with [])))))) = 2"
  by (simp add: classify_def fetch_listener_def media_cache_first_def world_ops Let_def
      request_for_def request_to_def env_with_def world_with_def response_with_def
      href_def endsWith_def new_ops_def lookup_def entries_def ensure_cache_def update_cache_def
      matching_def matching_any_def
      store_def request_key_def url_key_def cacheUrl_def new_URL_def newRequest_def headers_delete_def)

subsection \<open>Rejected writes\<close>

text \<open>
  C9 at a cache that rejects every write, with a network that answers 200. In all three
  strategies the caller gets the response. For \<^verbatim>\<open>GET /history\<close> (api) and
  \<^verbatim>\<open>GET /app.css\<close> (default) the console stays empty and the rejection is observed by no
  handler; for \<^verbatim>\<open>GET /audio/001.mp3\<close> (media) the rejection is caught and logged.
\<close>

theorem put_failure_is_logged_by_media_only:
  "fetch_listener (env_with (Resolves (response_with 200 ''new'')) (Some (JsError ''QuotaExceededError'')))
     (request_for ''GET'' ''/history'' [] []) (world_with [])
   = (Respond (Some (response_with 200 ''new'')),
      \<lparr>caches = [(''api-cache'', [])],
       trace = [Open ''api-cache'', Put ''api-cache'' ''https://reciter.example/history'' (response_with 200 ''new'')],
       console = [], network = [request_for ''GET'' ''/history'' [] []],
       unhandled = [JsError ''QuotaExceededError'']\<rparr>)
   \<and> fetch_listener (env_with (Resolves (response_with 200 ''new'')) (Some (JsError ''QuotaExceededError'')))
     (request_for ''GET'' ''/app.css'' [] []) (world_with [])
   = (Respond (Some (response_with 200 ''new'')),
      \<lparr>caches = [(''quran-reciter-v12'', [])],
       trace = [MatchAll ''https://reciter.example/app.css'', Open ''quran-reciter-v12'',
                Put ''quran-reciter-v12'' ''https://reciter.example/app.css'' (response_with 200 ''new'')],
       console = [], network = [request_for ''GET'' ''/app.css'' [] []],
       unhandled = [JsError ''QuotaExceededError'']\<rparr>)
   \<and> last (console (snd (fetch_listener
       (env_with (Resolves (response_with 200 ''new'')) (Some (JsError ''QuotaExceededError'')))
       (request_for ''GET'' ''/audio/001.mp3'' [] []) (world_with []))))
     = (Error, [Str ''[SW] Cache put failed:'', Err (JsError ''QuotaExceededError'')])
   \<and> unhandled (snd (fetch_listener
       (env_with (Resolves (response_with 200 ''new'')) (Some (JsError ''QuotaExceededError'')))
       (request_for ''GET'' ''/audio/001.mp3'' [] []) (world_with []))) = []"
  by (simp add: classify_def fetch_listener_def media_cache_first_def api_network_first_def
      stale_while_revalidate_def world_ops Let_def CACHE_NAME_def
      request_for_def request_to_def env_with_def world_with_def response_with_def
      href_def endsWith_def new_ops_def lookup_def entries_def ensure_cache_def update_cache_def
      matching_def matching_any_def
      store_def request_key_def url_key_def cacheUrl_def new_URL_def newRequest_def headers_delete_def)

end
